theory Spec2Isabelle
  imports Complex_Main
begin

section \<open>The syntax tree\<close>

text \<open>
  The scripts work on the tree that the parser returns.  A node is a JavaScript object
  with a \<open>type\<close> tag; the constructors below are the node types that the scripts
  inspect or build, with the fields they read, in the order of the node builders.
  \<open>Other t ks\<close> is a node of any other type \<open>t\<close> with its child nodes
  \<open>ks\<close>; it has no \<open>name\<close>, \<open>id\<close> or \<open>body\<close> that the scripts
  would read.  An optional child (\<open>null\<close> in the tree) is \<open>None\<close>.

  Source positions: a call expression carries \<open>loc.start.line\<close> (absent on nodes that
  were built, not parsed).  The numeric value of a literal is the number the parser computed
  for it; every finite double is a rational.
\<close>

datatype node =
    Program "node list"
  | ImportDeclaration "node list" string
  | ImportSpecifier node node
  | VariableDeclaration string "node list"
  | VariableDeclarator node "node option"
  | FunctionDeclaration "node option" "node list" node
  | FunctionExpression "node option" "node list" node
  | ArrowFunctionExpression "node list" node
  | BlockStatement "node list"
  | ExpressionStatement node
  | ReturnStatement "node option"
  | Identifier string
  | ArrayPattern "node option list"
  | CallExpression "nat option" node "node list"
  | MemberExpression node node
  | AssignmentExpression string node node
  | ConditionalExpression node node node
  | LogicalExpression string node node
  | BinaryExpression string node node
  | ObjectExpression "node list"
  | ObjectProperty node node
  | ArrayExpression "node option list"
  | BooleanLiteral bool
  | StringLiteral string
  | NumericLiteral rat
  | NullLiteral
  | JSXElement node "node option" "node list"
  | JSXOpeningElement node "node list" bool
  | JSXClosingElement node
  | JSXIdentifier string
  | JSXAttribute node "node option"
  | JSXExpressionContainer node
  | JSXFragment "node list"
  | Other string "node list"

subsection \<open>Fields of a node\<close>

text \<open>The \<open>type\<close> tag of a node.\<close>

fun node_type :: "node \<Rightarrow> string" where
  "node_type (Program _) = ''Program''"
| "node_type (ImportDeclaration _ _) = ''ImportDeclaration''"
| "node_type (ImportSpecifier _ _) = ''ImportSpecifier''"
| "node_type (VariableDeclaration _ _) = ''VariableDeclaration''"
| "node_type (VariableDeclarator _ _) = ''VariableDeclarator''"
| "node_type (FunctionDeclaration _ _ _) = ''FunctionDeclaration''"
| "node_type (FunctionExpression _ _ _) = ''FunctionExpression''"
| "node_type (ArrowFunctionExpression _ _) = ''ArrowFunctionExpression''"
| "node_type (BlockStatement _) = ''BlockStatement''"
| "node_type (ExpressionStatement _) = ''ExpressionStatement''"
| "node_type (ReturnStatement _) = ''ReturnStatement''"
| "node_type (Identifier _) = ''Identifier''"
| "node_type (ArrayPattern _) = ''ArrayPattern''"
| "node_type (CallExpression _ _ _) = ''CallExpression''"
| "node_type (MemberExpression _ _) = ''MemberExpression''"
| "node_type (AssignmentExpression _ _ _) = ''AssignmentExpression''"
| "node_type (ConditionalExpression _ _ _) = ''ConditionalExpression''"
| "node_type (LogicalExpression _ _ _) = ''LogicalExpression''"
| "node_type (BinaryExpression _ _ _) = ''BinaryExpression''"
| "node_type (ObjectExpression _) = ''ObjectExpression''"
| "node_type (ObjectProperty _ _) = ''ObjectProperty''"
| "node_type (ArrayExpression _) = ''ArrayExpression''"
| "node_type (BooleanLiteral _) = ''BooleanLiteral''"
| "node_type (StringLiteral _) = ''StringLiteral''"
| "node_type (NumericLiteral _) = ''NumericLiteral''"
| "node_type NullLiteral = ''NullLiteral''"
| "node_type (JSXElement _ _ _) = ''JSXElement''"
| "node_type (JSXOpeningElement _ _ _) = ''JSXOpeningElement''"
| "node_type (JSXClosingElement _) = ''JSXClosingElement''"
| "node_type (JSXIdentifier _) = ''JSXIdentifier''"
| "node_type (JSXAttribute _ _) = ''JSXAttribute''"
| "node_type (JSXExpressionContainer _) = ''JSXExpressionContainer''"
| "node_type (JSXFragment _) = ''JSXFragment''"
| "node_type (Other t _) = t"

text \<open>The \<open>name\<close> property: only identifiers have one; elsewhere it reads \<open>undefined\<close>.\<close>

fun node_name :: "node \<Rightarrow> string option" where
  "node_name (Identifier x) = Some x"
| "node_name (JSXIdentifier x) = Some x"
| "node_name _ = None"

text \<open>A name as a template literal prints it: \<open>undefined\<close> prints as such.\<close>

definition printed_name :: "node \<Rightarrow> string" where
  "printed_name n = (case node_name n of Some x \<Rightarrow> x | None \<Rightarrow> ''undefined'')"

text \<open>The \<open>id\<close> of a function node (absent on arrow functions) and of a declarator.\<close>

fun function_id :: "node \<Rightarrow> node option" where
  "function_id (FunctionDeclaration i _ _) = i"
| "function_id (FunctionExpression i _ _) = i"
| "function_id _ = None"

fun declarator_id :: "node \<Rightarrow> node option" where
  "declarator_id (VariableDeclarator i _) = Some i"
| "declarator_id _ = None"

fun properties :: "node \<Rightarrow> node list" where
  "properties (ObjectExpression ps) = ps"
| "properties _ = []"

fun elements :: "node \<Rightarrow> node option list" where
  "elements (ArrayExpression es) = es"
| "elements (ArrayPattern es) = es"
| "elements _ = []"

text \<open>
  The child nodes in the order in which the traversal visits them (the visitor keys of the
  node type); \<open>null\<close> children are skipped.
\<close>

fun present :: "node option list \<Rightarrow> node list" where
  "present [] = []"
| "present (None # es) = present es"
| "present (Some e # es) = e # present es"

fun children :: "node \<Rightarrow> node list" where
  "children (Program b) = b"
| "children (ImportDeclaration specs _) = specs"
| "children (ImportSpecifier imp loc) = [imp, loc]"
| "children (VariableDeclaration _ ds) = ds"
| "children (VariableDeclarator i init) = i # present [init]"
| "children (FunctionDeclaration i ps b) = present [i] @ ps @ [b]"
| "children (FunctionExpression i ps b) = present [i] @ ps @ [b]"
| "children (ArrowFunctionExpression ps b) = ps @ [b]"
| "children (BlockStatement b) = b"
| "children (ExpressionStatement e) = [e]"
| "children (ReturnStatement a) = present [a]"
| "children (ArrayPattern es) = present es"
| "children (CallExpression _ c as) = c # as"
| "children (MemberExpression ob p) = [ob, p]"
| "children (AssignmentExpression _ l r) = [l, r]"
| "children (ConditionalExpression t c a) = [t, c, a]"
| "children (LogicalExpression _ l r) = [l, r]"
| "children (BinaryExpression _ l r) = [l, r]"
| "children (ObjectExpression ps) = ps"
| "children (ObjectProperty k v) = [k, v]"
| "children (ArrayExpression es) = present es"
| "children (JSXElement ope cl ks) = ope # ks @ present [cl]"
| "children (JSXOpeningElement nm ats _) = nm # ats"
| "children (JSXClosingElement nm) = [nm]"
| "children (JSXAttribute nm v) = nm # present [v]"
| "children (JSXExpressionContainer e) = [e]"
| "children (JSXFragment ks) = ks"
| "children (Other _ ks) = ks"
| "children _ = []"

lemma present_single: "present [x] = (case x of None \<Rightarrow> [] | Some e \<Rightarrow> [e])"
  by (cases x) auto

lemma in_list_size: "k \<in> set ks \<Longrightarrow> size k \<le> size_list size ks"
  by (induction ks) auto

lemma in_present_size: "k \<in> set (present es) \<Longrightarrow> size k \<le> size_list (size_option size) es"
  by (induction es rule: present.induct) auto

lemma size_child: "k \<in> set (children n) \<Longrightarrow> size k < size n"
  by (cases n)
    (auto simp: present_single less_Suc_eq_le dest!: in_list_size in_present_size
      split: option.splits)

text \<open>
  A path is a node with its ancestors, nearest first, and its address: the indices of the
  children taken from the root to reach it.  The traversal visits the nodes in depth-first
  order, a node before its children.
\<close>

function subpaths :: "nat list \<Rightarrow> node list \<Rightarrow> node \<Rightarrow> (node \<times> node list \<times> nat list) list" where
  "subpaths addr anc n =
     (n, anc, addr) #
     concat (map (\<lambda>ik. subpaths (addr @ [fst ik]) (n # anc) (snd ik)) (enumerate 0 (children n)))"
  by pat_completeness auto
termination
  by (relation "measure (\<lambda>(addr, anc, n). size n)")
    (auto simp: size_child in_set_enumerate_eq)

declare subpaths.simps [simp del]

text \<open>The nodes of a tree, in the order of the traversal.\<close>

function nodes :: "node \<Rightarrow> node list" where
  "nodes n = n # concat (map nodes (children n))"
  by pat_completeness auto
termination
  by (relation "measure size") (auto simp: size_child)

declare nodes.simps [simp del]

lemma subpaths_nodes: "map fst (subpaths addr anc n) = nodes n"
proof (induction n arbitrary: addr anc rule: measure_induct_rule [where f = size])
  case (less n)
  have eq: "map (\<lambda>ik. map fst (subpaths (addr @ [fst ik]) (n # anc) (snd ik)))
              (enumerate 0 (children n)) =
            map (\<lambda>ik. nodes (snd ik)) (enumerate 0 (children n))"
    by (rule map_cong) (auto simp: less size_child in_set_enumerate_eq)
  have "map (\<lambda>ik. nodes (snd ik)) (enumerate 0 (children n)) = map nodes (children n)"
    by (simp add: map_snd_enumerate flip: map_map [unfolded comp_def])
  then show ?case
    by (subst subpaths.simps, subst nodes.simps) (simp add: map_concat comp_def eq)
qed

section \<open>The analyzer of \<open>useState\<close> initialisations\<close>

text \<open>
  One finding of \<open>analyzeFile\<close>.  \<open>lineNumber\<close> is \<open>loc?.start?.line\<close>;
  \<open>initialization\<close> is the trimmed slice of the content of the file between the
  offsets \<open>start\<close> and \<open>end\<close> of the initial value.
\<close>

record finding =
  componentName :: string
  variableName :: string
  filePath :: string
  lineNumber :: "nat option"
  reason :: string
  initialization :: string

record analysis =
  useStateImported :: bool
  findings :: "finding list"

definition is_function :: "node \<Rightarrow> bool" where
  "is_function n \<longleftrightarrow>
     node_type n = ''FunctionDeclaration'' \<or> node_type n = ''FunctionExpression'' \<or>
     node_type n = ''ArrowFunctionExpression''"

text \<open>
  \<open>findComponentName\<close>: from the path outwards, the first function node that has an
  \<open>id\<close> or whose parent is a variable declarator names the component.
\<close>

fun findComponentName :: "node \<Rightarrow> node list \<Rightarrow> string" where
  "findComponentName n [] =
     (if is_function n then
        (case function_id n of Some i \<Rightarrow> printed_name i | None \<Rightarrow> ''Unknown Component'')
      else ''Unknown Component'')"
| "findComponentName n (p # anc) =
     (if is_function n then
        (case function_id n of
           Some i \<Rightarrow> printed_name i
         | None \<Rightarrow>
            (case declarator_id p of
               Some i \<Rightarrow> printed_name i
             | None \<Rightarrow> findComponentName p anc))
      else findComponentName p anc)"

text \<open>\<open>spec.imported?.name\<close> of an import specifier.\<close>

fun imported_name :: "node \<Rightarrow> string option" where
  "imported_name (ImportSpecifier imp _) = node_name imp"
| "imported_name _ = None"

definition imports_useState :: "node list \<Rightarrow> string \<Rightarrow> bool" where
  "imports_useState specs source \<longleftrightarrow>
     source = ''react'' \<and> list_ex (\<lambda>spec. imported_name spec = Some ''useState'') specs"

definition ImportDeclaration_analyze :: "analysis \<Rightarrow> node \<Rightarrow> analysis" where
  "ImportDeclaration_analyze s n =
     (case n of
        ImportDeclaration specs source \<Rightarrow>
          if imports_useState specs source then s\<lparr>useStateImported := True\<rparr> else s
      | _ \<Rightarrow> s)"

text \<open>
  The name of the variable being initialised: the first element of the array pattern when
  the call is the \<open>init\<close> of a declarator, \<open>'unknown'\<close> when that element has no name,
  and the empty string elsewhere.
\<close>

definition variable_name :: "node list \<Rightarrow> string" where
  "variable_name anc =
     (case anc of
        VariableDeclarator (ArrayPattern es) _ # _ \<Rightarrow>
          (case es of
             Some e # _ \<Rightarrow>
               (case node_name e of
                  Some x \<Rightarrow> if x = [] then ''unknown'' else x
                | None \<Rightarrow> ''unknown'')
           | _ \<Rightarrow> ''unknown'')
      | _ \<Rightarrow> [])"

fun string_value :: "node \<Rightarrow> string option" where
  "string_value (StringLiteral v) = Some v"
| "string_value _ = None"

fun numeric_value :: "node \<Rightarrow> rat option" where
  "numeric_value (NumericLiteral v) = Some v"
| "numeric_value _ = None"

text \<open>
  The chain of tests on the initial value ends in one of three ways: the value is complex,
  with a reason; the visitor returns at once (a basic initialisation); or the chain falls
  through with \<open>isComplex\<close> still false.
\<close>

datatype verdict = Complex_value string | Basic | Plain

definition check_initial_value :: "node \<Rightarrow> verdict" where
  "check_initial_value iv =
     (if node_type iv = ''ArrowFunctionExpression'' \<or> node_type iv = ''FunctionExpression''
      then Complex_value ''Function initialization''
      else if node_type iv = ''ConditionalExpression'' then Complex_value ''Ternary operator''
      else if node_type iv = ''LogicalExpression'' then Complex_value ''Logical expression''
      else if node_type iv = ''CallExpression'' then Complex_value ''Function call''
      else if node_type iv = ''ObjectExpression'' \<and> length (properties iv) > 0
      then Complex_value ''Complex object''
      else if node_type iv = ''ArrayExpression'' \<and> length (elements iv) > 0
      then Complex_value ''Non-empty array''
      else if node_type iv = ''BinaryExpression'' then Complex_value ''Binary expression''
      else if node_type iv = ''BooleanLiteral'' \<or>
              (node_type iv = ''StringLiteral'' \<and> string_value iv = Some []) \<or>
              (node_type iv = ''NumericLiteral'' \<and> numeric_value iv = Some 0) \<or>
              node_type iv = ''NullLiteral'' \<or>
              (node_type iv = ''Identifier'' \<and> node_name iv = Some ''undefined'')
      then Basic
      else Plain)"

text \<open>
  The offsets of the nodes.  The parser records on every node the offsets \<open>start\<close> and
  \<open>end\<close> of its text in the content.  Only the analyzer reads them, and only those of
  an initial value; in the model they come beside the tree, as a function of the address of
  the node.  Two files with the same tree and different spacing differ in it.
\<close>

type_synonym offsets = "nat list \<Rightarrow> nat \<times> nat"

text \<open>
  \<open>content.slice(start, end)\<close> for offsets inside the content, and \<open>trim\<close>.  The
  characters of the model are bytes: the two are those of the script on ASCII content.
\<close>

definition slice :: "string \<Rightarrow> nat \<Rightarrow> nat \<Rightarrow> string" where
  "slice content start stop = take (stop - start) (drop start content)"

definition is_space :: "char \<Rightarrow> bool" where
  "is_space c \<longleftrightarrow> (of_char c :: nat) \<in> {9, 10, 11, 12, 13, 32}"

definition trim :: "string \<Rightarrow> string" where
  "trim cs = rev (dropWhile is_space (rev (dropWhile is_space cs)))"

text \<open>
  The \<open>CallExpression\<close> visitor of \<open>analyzeFile\<close>, on the path \<open>(n, anc, addr)\<close>.
  The initial value is the first argument: the child 1 of the call, after the callee.
\<close>

definition CallExpression_analyze ::
    "string \<Rightarrow> offsets \<Rightarrow> string \<Rightarrow> analysis \<Rightarrow> node \<Rightarrow> node list \<Rightarrow> nat list \<Rightarrow> analysis" where
  "CallExpression_analyze content offsets fp s n anc addr =
     (if \<not> useStateImported s then s
      else
        (case n of
           CallExpression loc callee args \<Rightarrow>
             if node_name callee = Some ''useState'' then
               (case args of
                  [] \<Rightarrow> s
                | initialValue # _ \<Rightarrow>
                    (case check_initial_value initialValue of
                       Complex_value r \<Rightarrow>
                         s\<lparr>findings := findings s @
                           [\<lparr>componentName = findComponentName n anc,
                             variableName = variable_name anc,
                             filePath = fp,
                             lineNumber = loc,
                             reason = r,
                             initialization =
                               trim (slice content (fst (offsets (addr @ [1])))
                                       (snd (offsets (addr @ [1]))))\<rparr>]\<rparr>
                     | Basic \<Rightarrow> s
                     | Plain \<Rightarrow> s))
             else s
         | _ \<Rightarrow> s))"

definition visit_analyze ::
    "string \<Rightarrow> offsets \<Rightarrow> string \<Rightarrow> analysis \<Rightarrow> node \<times> node list \<times> nat list \<Rightarrow> analysis" where
  "visit_analyze content offsets fp s p =
     (case p of (n, anc, addr) \<Rightarrow>
        if node_type n = ''ImportDeclaration'' then ImportDeclaration_analyze s n
        else if node_type n = ''CallExpression'' then
          CallExpression_analyze content offsets fp s n anc addr
        else s)"

definition traverse_analyze :: "string \<Rightarrow> offsets \<Rightarrow> string \<Rightarrow> node \<Rightarrow> analysis" where
  "traverse_analyze content offsets fp ast =
     foldl (visit_analyze content offsets fp) \<lparr>useStateImported = False, findings = []\<rparr>
       (subpaths [] [] ast)"

text \<open>\<open>content.includes(sub)\<close>.\<close>

fun starts_with :: "string \<Rightarrow> string \<Rightarrow> bool" where
  "starts_with _ [] = True"
| "starts_with [] (_ # _) = False"
| "starts_with (c # cs) (d # ds) = (c = d \<and> starts_with cs ds)"

fun str_includes :: "string \<Rightarrow> string \<Rightarrow> bool" where
  "str_includes [] sub = (sub = [])"
| "str_includes (c # cs) sub = (starts_with (c # cs) sub \<or> str_includes cs sub)"

text \<open>
  \<open>analyzeFile\<close> on the content read from the file.  The parser is a function of the
  content that fails on malformed source (\<open>None\<close>) and else gives the tree and the
  offsets.  The result is \<open>undefined\<close> (\<open>None\<close>) for a file that does not mention
  \<open>useState\<close>, else the findings; a parse error is caught, logged, and gives no
  findings.  The second component is what the call writes to the error console.
\<close>

definition analyzeFile ::
    "(string \<Rightarrow> (node \<times> offsets) option) \<Rightarrow> string \<Rightarrow> string \<Rightarrow>
       finding list option \<times> string list" where
  "analyzeFile parse content fp =
     (if \<not> str_includes content ''useState'' then (None, [])
      else
        (case parse content of
           None \<Rightarrow> (Some [], [''Error processing '' @ fp @ '':''])
         | Some (ast, offsets) \<Rightarrow>
             (Some (findings (traverse_analyze content offsets fp ast)), [])))"

text \<open>
  What the scripts throw: a syntax error of the parser, a type error, and the error of
  reading a file that is not there.
\<close>

datatype exn = SyntaxError | TypeError | ENOENT

text \<open>
  The analyzer over the files of a run (the walk of the directory gives the list): all
  findings and the error console.  \<open>analyzeFile\<close> reads the file outside its
  \<open>try\<close>, so a file that cannot be read ends the run.
\<close>

definition analyzeFiles ::
    "(string \<Rightarrow> (node \<times> offsets) option) \<Rightarrow> (string \<rightharpoonup> string) \<Rightarrow> string list \<Rightarrow>
       exn + finding list \<times> string list" where
  "analyzeFiles parse files fps =
     foldl
       (\<lambda>acc fp.
          case acc of
            Inl e \<Rightarrow> Inl e
          | Inr (allFindings, errors) \<Rightarrow>
              (case files fp of
                 None \<Rightarrow> Inl ENOENT
               | Some content \<Rightarrow>
                   (case analyzeFile parse content fp of
                      (None, out) \<Rightarrow> Inr (allFindings, errors @ out)
                    | (Some fs, out) \<Rightarrow> Inr (allFindings @ fs, errors @ out))))
       (Inr ([], [])) fps"

section \<open>Traversal with mutation\<close>

text \<open>
  The mutating scripts change nodes while the traversal runs.  A visit of a node takes the
  state of the script to a new state and a new node, or throws (\<open>Inl\<close>).  \<open>thread\<close>
  visits a list of nodes from left to right; \<open>descend\<close> visits the children of a node in
  their order and puts the visited children back in their places (the script mutates them in
  place).  The ancestors handed to a visit are the nodes as parsed: the visitors read only
  the type and the \<open>id\<close> of an ancestor, which no mutation changes.
\<close>

fun thread :: "('s \<Rightarrow> node \<Rightarrow> 'e + 's \<times> node) \<Rightarrow> 's \<Rightarrow> node list \<Rightarrow> 'e + 's \<times> node list" where
  "thread f s [] = Inr (s, [])"
| "thread f s (k # ks) =
     (case f s k of
        Inl e \<Rightarrow> Inl e
      | Inr (s1, k') \<Rightarrow>
          (case thread f s1 ks of
             Inl e \<Rightarrow> Inl e
           | Inr (s2, ks') \<Rightarrow> Inr (s2, k' # ks')))"

lemma thread_cong [fundef_cong]:
  "s = t \<Longrightarrow> xs = ys \<Longrightarrow> (\<And>s x. x \<in> set ys \<Longrightarrow> f s x = g s x) \<Longrightarrow> thread f s xs = thread g t ys"
  by (induction ys arbitrary: s t xs) (auto split: sum.splits)

fun refill_opt :: "node option \<Rightarrow> node list \<Rightarrow> node option" where
  "refill_opt None ks = None"
| "refill_opt (Some e) [] = Some e"
| "refill_opt (Some e) (k # _) = Some k"

fun refill :: "node option list \<Rightarrow> node list \<Rightarrow> node option list" where
  "refill [] ks = []"
| "refill (None # es) ks = None # refill es ks"
| "refill (Some e # es) [] = Some e # refill es []"
| "refill (Some e # es) (k # ks) = Some k # refill es ks"

fun rebuild :: "node \<Rightarrow> node list \<Rightarrow> node" where
  "rebuild (Program _) ks = Program ks"
| "rebuild (ImportDeclaration _ source) ks = ImportDeclaration ks source"
| "rebuild (ImportSpecifier imp loc) ks =
     (case ks of [a, b] \<Rightarrow> ImportSpecifier a b | _ \<Rightarrow> ImportSpecifier imp loc)"
| "rebuild (VariableDeclaration kind _) ks = VariableDeclaration kind ks"
| "rebuild (VariableDeclarator i init) ks =
     (case ks of i' # r \<Rightarrow> VariableDeclarator i' (refill_opt init r)
      | [] \<Rightarrow> VariableDeclarator i init)"
| "rebuild (FunctionDeclaration i ps b) ks =
     (if ks = [] then FunctionDeclaration i ps b
      else FunctionDeclaration (refill_opt i ks)
             (take (length ps) (drop (length (present [i])) ks)) (last ks))"
| "rebuild (FunctionExpression i ps b) ks =
     (if ks = [] then FunctionExpression i ps b
      else FunctionExpression (refill_opt i ks)
             (take (length ps) (drop (length (present [i])) ks)) (last ks))"
| "rebuild (ArrowFunctionExpression ps b) ks =
     (if ks = [] then ArrowFunctionExpression ps b
      else ArrowFunctionExpression (butlast ks) (last ks))"
| "rebuild (BlockStatement _) ks = BlockStatement ks"
| "rebuild (ExpressionStatement e) ks =
     (case ks of [e'] \<Rightarrow> ExpressionStatement e' | _ \<Rightarrow> ExpressionStatement e)"
| "rebuild (ReturnStatement a) ks = ReturnStatement (refill_opt a ks)"
| "rebuild (ArrayPattern es) ks = ArrayPattern (refill es ks)"
| "rebuild (CallExpression loc c as) ks =
     (case ks of c' # as' \<Rightarrow> CallExpression loc c' as' | [] \<Rightarrow> CallExpression loc c as)"
| "rebuild (MemberExpression ob p) ks =
     (case ks of [a, b] \<Rightarrow> MemberExpression a b | _ \<Rightarrow> MemberExpression ob p)"
| "rebuild (AssignmentExpression op l r) ks =
     (case ks of [a, b] \<Rightarrow> AssignmentExpression op a b | _ \<Rightarrow> AssignmentExpression op l r)"
| "rebuild (ConditionalExpression t c a) ks =
     (case ks of [x, y, z] \<Rightarrow> ConditionalExpression x y z | _ \<Rightarrow> ConditionalExpression t c a)"
| "rebuild (LogicalExpression op l r) ks =
     (case ks of [a, b] \<Rightarrow> LogicalExpression op a b | _ \<Rightarrow> LogicalExpression op l r)"
| "rebuild (BinaryExpression op l r) ks =
     (case ks of [a, b] \<Rightarrow> BinaryExpression op a b | _ \<Rightarrow> BinaryExpression op l r)"
| "rebuild (ObjectExpression _) ks = ObjectExpression ks"
| "rebuild (ObjectProperty k v) ks =
     (case ks of [a, b] \<Rightarrow> ObjectProperty a b | _ \<Rightarrow> ObjectProperty k v)"
| "rebuild (ArrayExpression es) ks = ArrayExpression (refill es ks)"
| "rebuild (JSXElement ope cl kids) ks =
     (case ks of
        ope' # r \<Rightarrow> JSXElement ope' (refill_opt cl (drop (length kids) r)) (take (length kids) r)
      | [] \<Rightarrow> JSXElement ope cl kids)"
| "rebuild (JSXOpeningElement nm ats sc) ks =
     (case ks of nm' # ats' \<Rightarrow> JSXOpeningElement nm' ats' sc
      | [] \<Rightarrow> JSXOpeningElement nm ats sc)"
| "rebuild (JSXClosingElement nm) ks =
     (case ks of [a] \<Rightarrow> JSXClosingElement a | _ \<Rightarrow> JSXClosingElement nm)"
| "rebuild (JSXAttribute nm v) ks =
     (case ks of nm' # r \<Rightarrow> JSXAttribute nm' (refill_opt v r) | [] \<Rightarrow> JSXAttribute nm v)"
| "rebuild (JSXExpressionContainer e) ks =
     (case ks of [a] \<Rightarrow> JSXExpressionContainer a | _ \<Rightarrow> JSXExpressionContainer e)"
| "rebuild (JSXFragment _) ks = JSXFragment ks"
| "rebuild (Other t _) ks = Other t ks"
| "rebuild n ks = n"

lemma refill_present: "refill es (present es) = es"
  by (induction es rule: present.induct) auto

lemma rebuild_children: "rebuild n (children n) = n"
  by (cases n) (auto simp: refill_present present_single split: option.splits)

definition descend :: "('s \<Rightarrow> node \<Rightarrow> 'e + 's \<times> node) \<Rightarrow> 's \<Rightarrow> node \<Rightarrow> 'e + 's \<times> node" where
  "descend f s n =
     (case thread f s (children n) of
        Inl e \<Rightarrow> Inl e
      | Inr (s', ks) \<Rightarrow> Inr (s', rebuild n ks))"

lemma descend_cong [fundef_cong]:
  "s = t \<Longrightarrow> n = m \<Longrightarrow> (\<And>s k. k \<in> set (children m) \<Longrightarrow> f s k = g s k) \<Longrightarrow>
     descend f s n = descend g t m"
proof -
  assume "s = t" "n = m" and h: "\<And>s k. k \<in> set (children m) \<Longrightarrow> f s k = g s k"
  have "thread f t (children m) = thread g t (children m)"
    by (rule thread_cong) (auto simp: h)
  then show ?thesis
    using \<open>s = t\<close> \<open>n = m\<close> by (simp add: descend_def)
qed

section \<open>The \<open>useEffect\<close> debugger\<close>

subsection \<open>Numbers in template literals\<close>

definition digit_char :: "nat \<Rightarrow> char" where
  "digit_char d = ''0123456789'' ! d"

fun string_of_nat :: "nat \<Rightarrow> string" where
  "string_of_nat n =
     (if n < 10 then [digit_char n] else string_of_nat (n div 10) @ [digit_char (n mod 10)])"

declare string_of_nat.simps [simp del]

subsection \<open>The synthesized statements\<close>

record effect_logger =
  counterVar :: node
  incrementCounter :: node
  logStatement :: node

definition console_log :: node where
  "console_log = MemberExpression (Identifier ''console'') (Identifier ''log'')"

definition counter_name :: "nat \<Rightarrow> string" where
  "counter_name effectIndex = ''effectCallCount_'' @ string_of_nat effectIndex"

definition createEffectLogger :: "string \<Rightarrow> string \<Rightarrow> string \<Rightarrow> nat \<Rightarrow> effect_logger" where
  "createEffectLogger component fp line effectIndex =
     \<lparr>counterVar =
        VariableDeclaration ''let''
          [VariableDeclarator (Identifier (counter_name effectIndex)) (Some (NumericLiteral 0))],
      incrementCounter =
        ExpressionStatement
          (AssignmentExpression ''+='' (Identifier (counter_name effectIndex)) (NumericLiteral 1)),
      logStatement =
        ExpressionStatement
          (CallExpression None console_log
            [StringLiteral
               (''['' @ component @ ''_Effect_'' @ string_of_nat effectIndex @ ''] useEffect at '' @
                fp @ '':'' @ line @ '' - Call count:''),
             Identifier (counter_name effectIndex)])\<rparr>"

definition createDependenciesLogger :: "string \<Rightarrow> nat \<Rightarrow> node \<Rightarrow> node" where
  "createDependenciesLogger component effectIndex deps =
     CallExpression None console_log
       [StringLiteral (''['' @ component @ ''_Effect_'' @ string_of_nat effectIndex @ ''] Dependencies:''),
        deps]"

text \<open>
  The component name of an effect: the \<open>id\<close> of the nearest ancestor that is a function
  declaration or a variable declarator.
\<close>

definition is_declaring :: "node \<Rightarrow> bool" where
  "is_declaring p \<longleftrightarrow> node_type p = ''FunctionDeclaration'' \<or> node_type p = ''VariableDeclarator''"

fun declaring_id :: "node \<Rightarrow> node option" where
  "declaring_id (FunctionDeclaration i _ _) = i"
| "declaring_id (VariableDeclarator i _) = Some i"
| "declaring_id _ = None"

definition effect_component :: "node list \<Rightarrow> string" where
  "effect_component anc =
     (case find is_declaring anc of
        None \<Rightarrow> ''Unknown''
      | Some parent \<Rightarrow>
          (case declaring_id parent of Some i \<Rightarrow> printed_name i | None \<Rightarrow> ''Anonymous''))"

definition line_text :: "nat option \<Rightarrow> string" where
  "line_text loc = (case loc of Some l \<Rightarrow> string_of_nat l | None \<Rightarrow> ''unknown'')"

text \<open>
  The statements put in front of the body of a callback: into a block the script unshifts
  the log statement, then the increment, then the dependencies log, so that the last comes
  first; for an expression body it builds the list in the other order.
\<close>

definition deps_statement :: "string \<Rightarrow> nat \<Rightarrow> node \<Rightarrow> node" where
  "deps_statement component effectIndex deps =
     ExpressionStatement (createDependenciesLogger component effectIndex deps)"

definition block_prefix :: "effect_logger \<Rightarrow> node option \<Rightarrow> node list" where
  "block_prefix logger depsLogging =
     present [depsLogging] @ [incrementCounter logger, logStatement logger]"

definition expression_prefix :: "effect_logger \<Rightarrow> node option \<Rightarrow> node list" where
  "expression_prefix logger depsLogging =
     [incrementCounter logger, logStatement logger] @ present [depsLogging]"

definition instrument_body :: "effect_logger \<Rightarrow> node option \<Rightarrow> node \<Rightarrow> node" where
  "instrument_body logger depsLogging body =
     (case body of
        BlockStatement stmts \<Rightarrow> BlockStatement (block_prefix logger depsLogging @ stmts)
      | _ \<Rightarrow>
          BlockStatement (expression_prefix logger depsLogging @ [ReturnStatement (Some body)]))"

text \<open>The callback with its body replaced; other nodes are not callbacks.\<close>

fun is_callback :: "node \<Rightarrow> bool" where
  "is_callback (ArrowFunctionExpression _ _) = True"
| "is_callback (FunctionExpression _ _ _) = True"
| "is_callback _ = False"

fun callback_body :: "node \<Rightarrow> node" where
  "callback_body (ArrowFunctionExpression _ b) = b"
| "callback_body (FunctionExpression _ _ b) = b"
| "callback_body n = n"


subsection \<open>The traversal of \<open>transformCode\<close>\<close>

text \<open>
  \<open>effectCounter\<close> is the variable of the module: it lives as long as the process, across
  the files of a run.  \<open>effectsFound\<close> and \<open>fileModified\<close> are local to one call of
  \<open>transformCode\<close>.  \<open>hoisted\<close> are the counter declarations that the visitor has
  unshifted into the body of the program, the last one first.
\<close>

record transform =
  effectCounter :: nat
  effectsFound :: nat
  fileModified :: bool
  hoisted :: "node list"

definition is_useEffect :: "node \<Rightarrow> bool" where
  "is_useEffect callee \<longleftrightarrow> node_type callee = ''Identifier'' \<and> node_name callee = Some ''useEffect''"

definition has_program :: "node list \<Rightarrow> bool" where
  "has_program anc \<longleftrightarrow> list_ex (\<lambda>p. node_type p = ''Program'') anc"

text \<open>
  The state after the visitor has instrumented a call: the declaration is hoisted, the
  counter advances, the file counts as modified.
\<close>

definition mutated :: "effect_logger \<Rightarrow> transform \<Rightarrow> transform" where
  "mutated logger s =
     s\<lparr>hoisted := counterVar logger # hoisted s,
       effectCounter := effectCounter s + 1,
       fileModified := True\<rparr>"

fun call_parts :: "node \<Rightarrow> (nat option \<times> node \<times> node list) option" where
  "call_parts (CallExpression loc callee args) = Some (loc, callee, args)"
| "call_parts _ = None"

fun block_statements :: "node \<Rightarrow> node list option" where
  "block_statements (BlockStatement stmts) = Some stmts"
| "block_statements _ = None"

lemma call_parts_Some: "call_parts n = Some (loc, callee, args) \<longleftrightarrow> n = CallExpression loc callee args"
  by (cases n) auto

lemma block_statements_Some: "block_statements n = Some stmts \<longleftrightarrow> n = BlockStatement stmts"
  by (cases n) auto

lemma size_callback_params: "k \<in> set (butlast (children c)) \<Longrightarrow> size k < size c"
  using size_child [of k c] by (auto dest: in_set_butlastD)

lemma size_callback_body: "is_callback c \<Longrightarrow> size (callback_body c) < size c"
  by (cases c) auto

lemma size_in_call:
  "k \<in> set (butlast (children c)) \<Longrightarrow> size k < size (CallExpression loc callee (c # rest))"
  "k \<in> set (take (Suc 0) rest) \<Longrightarrow> size k < size (CallExpression loc callee (c # rest))"
  "k \<in> set rest \<Longrightarrow> size k < size (CallExpression loc callee (c # rest))"
  "is_callback c \<Longrightarrow> size (callback_body c) < size (CallExpression loc callee (c # rest))"
  "callback_body c = BlockStatement b \<Longrightarrow> k \<in> set b \<Longrightarrow>
     size k < size (CallExpression loc callee (c # rest))"
proof -
  show "k \<in> set (butlast (children c)) \<Longrightarrow> size k < size (CallExpression loc callee (c # rest))"
    using size_callback_params [of k c] by simp
  show "k \<in> set (take (Suc 0) rest) \<Longrightarrow> size k < size (CallExpression loc callee (c # rest))"
    using in_list_size [of k rest] by (auto dest: in_set_takeD)
  show "k \<in> set rest \<Longrightarrow> size k < size (CallExpression loc callee (c # rest))"
    using in_list_size [of k rest] by auto
  show "is_callback c \<Longrightarrow> size (callback_body c) < size (CallExpression loc callee (c # rest))"
    using size_callback_body [of c] by simp
  show "callback_body c = BlockStatement b \<Longrightarrow> k \<in> set b \<Longrightarrow>
     size k < size (CallExpression loc callee (c # rest))"
    using in_list_size [of k b] by (cases c) auto
qed

text \<open>
  The traversal, with the \<open>CallExpression\<close> visitor in it.  A visit throws a
  \<open>TypeError\<close> (\<open>Inl\<close>, with the state at that moment, of which the module's counter
  survives) when \<open>useEffect\<close> is called without arguments, since the visitor reads
  \<open>callback.type\<close>, and when the call has no program above it.

  At a call \<open>useEffect(callback, deps, ...)\<close> with a function literal as callback, the
  visitor changes the body of the callback; the traversal then goes on into the changed
  call: the \<open>id\<close> and the parameters of the callback, the new body (the dependencies inside the inserted
  log statement, which the script shares with the second argument and which the model
  copies, then the statements or the expression of the old body), and the other arguments.
  The other inserted nodes are identifiers, literals and calls of \<open>console.log\<close>.
\<close>

function traverse_effects ::
    "string \<Rightarrow> transform \<Rightarrow> node list \<Rightarrow> node \<Rightarrow> transform + transform \<times> node" where
  "traverse_effects fp s anc n =
     (case call_parts n of
        Some (loc, callee, args) \<Rightarrow>
          if is_useEffect callee then
            (let s1 = s\<lparr>effectsFound := effectsFound s + 1\<rparr> in
             case args of
               [] \<Rightarrow> Inl s1
             | callback # rest \<Rightarrow>
                 if is_callback callback then
                   (if \<not> has_program anc then Inl s1
                    else
                      let component = effect_component anc;
                          logger = createEffectLogger component fp (line_text loc) (effectCounter s1);
                          s2 = mutated logger s1;
                          inner = callback # n # anc
                      in
                      case thread (\<lambda>t k. traverse_effects fp t inner k) s2 (butlast (children callback)) of
                        Inl e \<Rightarrow> Inl e
                      | Inr (s3, ps') \<Rightarrow>
                      (case thread (\<lambda>t k. traverse_effects fp t inner k) s3 (take 1 rest) of
                         Inl e \<Rightarrow> Inl e
                       | Inr (s4, deps') \<Rightarrow>
                       (case
                          (case block_statements (callback_body callback) of
                             Some stmts \<Rightarrow>
                               (case thread (\<lambda>t k. traverse_effects fp t
                                        (callback_body callback # inner) k) s4 stmts of
                                  Inl e \<Rightarrow> Inl e
                                | Inr (s5, stmts') \<Rightarrow> Inr (s5, BlockStatement stmts'))
                           | None \<Rightarrow> traverse_effects fp s4 inner (callback_body callback))
                        of
                          Inl e \<Rightarrow> Inl e
                        | Inr (s5, body') \<Rightarrow>
                        (case thread (\<lambda>t k. traverse_effects fp t (n # anc) k) s5 rest of
                           Inl e \<Rightarrow> Inl e
                         | Inr (s6, rest') \<Rightarrow>
                             Inr (s6,
                               CallExpression loc callee
                                 (rebuild callback (ps' @
                                    [instrument_body logger
                                       (map_option (deps_statement component (effectCounter s1))
                                          (case deps' of [] \<Rightarrow> None | d # _ \<Rightarrow> Some d))
                                       body'])
                                  # rest'))))))
                 else descend (\<lambda>t k. traverse_effects fp t (n # anc) k) s1 n)
          else descend (\<lambda>t k. traverse_effects fp t (n # anc) k) s n
      | None \<Rightarrow> descend (\<lambda>t k. traverse_effects fp t (n # anc) k) s n)"
  by pat_completeness auto
termination
  by (relation "measure (\<lambda>(fp, s, anc, n). size n)")
    (auto simp add: call_parts_Some block_statements_Some size_child size_in_call
      simp del: children.simps node.size)

declare traverse_effects.simps [simp del]

text \<open>The equation of the traversal, case by case.\<close>

definition effect_call :: "node \<Rightarrow> bool" where
  "effect_call n \<longleftrightarrow>
     (case call_parts n of Some (loc, callee, args) \<Rightarrow> is_useEffect callee | None \<Rightarrow> False)"

lemma te_other:
  "\<not> effect_call n \<Longrightarrow>
     traverse_effects fp s anc n = descend (\<lambda>t k. traverse_effects fp t (n # anc) k) s n"
  by (subst traverse_effects.simps) (auto simp: effect_call_def split: option.splits)





subsection \<open>\<open>transformCode\<close> and \<open>processFile\<close>\<close>

text \<open>
  The parser returns a tree with the program at its root (the enclosing \<open>File\<close> node is
  left out); the declarations that the visitor unshifted stand in front of its body.
\<close>

fun unshift_body :: "node list \<Rightarrow> node \<Rightarrow> node" where
  "unshift_body ds (Program b) = Program (ds @ b)"
| "unshift_body ds n = n"

text \<open>
  \<open>transformCode\<close>, with the parser and the code generator as functions, from the value
  of the module's counter.  It returns what the call returns (\<open>modified\<close> and
  \<open>effectsCount\<close>) or the exception it throws, and the new value of the module's counter.
\<close>

definition transformCode ::
    "(string \<Rightarrow> node option) \<Rightarrow> (node \<Rightarrow> string) \<Rightarrow> string \<Rightarrow> string \<Rightarrow> nat \<Rightarrow>
       (exn + string option \<times> nat) \<times> nat" where
  "transformCode parse generate code fp counter =
     (case parse code of
        None \<Rightarrow> (Inl SyntaxError, counter)
      | Some ast \<Rightarrow>
          (case traverse_effects fp
                  \<lparr>effectCounter = counter, effectsFound = 0, fileModified = False, hoisted = []\<rparr>
                  [] ast of
             Inl s \<Rightarrow> (Inl TypeError, effectCounter s)
           | Inr (s, ast') \<Rightarrow>
               if \<not> fileModified s then (Inr (None, 0), effectCounter s)
               else (Inr (Some (generate (unshift_body (hoisted s) ast')), effectsFound s),
                     effectCounter s)))"

text \<open>
  What a script does to the world: the files on disk, what it prints, and the paths it
  writes, in order.  Line breaks and the text of an error object are left out of the printed
  lines.  A run of the debugger has, besides, the counter of the module
  \<open>codeTransformer\<close> and the counter of the main script.
\<close>

record machine =
  disk :: "string \<rightharpoonup> string"
  console :: "string list"
  written :: "string list"

record run = machine +
  moduleCounter :: nat
  globalEffectCounter :: nat

definition say :: "string \<Rightarrow> 'a machine_scheme \<Rightarrow> 'a machine_scheme" where
  "say line r = r\<lparr>console := console r @ [line]\<rparr>"

definition plural :: "nat \<Rightarrow> string" where
  "plural n = (if n \<noteq> 1 then ''s'' else [])"

definition processFile ::
    "(string \<Rightarrow> node option) \<Rightarrow> (node \<Rightarrow> string) \<Rightarrow> string \<Rightarrow> run \<Rightarrow> run" where
  "processFile parse generate fp r0 =
     (let r = say (''Processing file: '' @ fp) r0 in
      case disk r fp of
        None \<Rightarrow> say (''Error processing '' @ fp @ '':'') r
      | Some code \<Rightarrow>
          if \<not> str_includes code ''useEffect'' then say ''No useEffect found in file'' r
          else
            (case transformCode parse generate code fp (moduleCounter r) of
               (Inl e, c) \<Rightarrow> say (''Error processing '' @ fp @ '':'') (r\<lparr>moduleCounter := c\<rparr>)
             | (Inr (modified, effectsCount), c) \<Rightarrow>
                 (case modified of
                    None \<Rightarrow> say ''No modifications were necessary'' (r\<lparr>moduleCounter := c\<rparr>)
                  | Some text \<Rightarrow>
                      if text = [] then
                        say ''No modifications were necessary'' (r\<lparr>moduleCounter := c\<rparr>)
                      else
                        (say (''Successfully modified '' @ fp)
                          (say (''Found '' @ string_of_nat effectsCount @ '' useEffect'' @
                                plural effectsCount)
                            (r\<lparr>moduleCounter := c\<rparr>)))
                          \<lparr>disk := (disk r)(fp \<mapsto> text),
                           written := written r @ [fp],
                           globalEffectCounter := globalEffectCounter r + effectsCount\<rparr>)))"

text \<open>The files of a run, one after the other (the walk of the directory gives the list).\<close>

definition processFiles ::
    "(string \<Rightarrow> node option) \<Rightarrow> (node \<Rightarrow> string) \<Rightarrow> string list \<Rightarrow> run \<Rightarrow> run" where
  "processFiles parse generate fps r = foldl (\<lambda>r fp. processFile parse generate fp r) r fps"

section \<open>The logger of \<open>useState\<close> setters\<close>

text \<open>
  The state of one traversal: whether the import of \<open>useState\<close> from \<open>react\<close> was
  seen, whether the tree was changed, and the map from the name of a setter to the name of
  its state.
\<close>

record logging =
  imported :: bool
  modified :: bool
  stateSetters :: "string \<rightharpoonup> string"

definition ImportDeclaration_log :: "logging \<Rightarrow> node \<Rightarrow> logging" where
  "ImportDeclaration_log s n =
     (case n of
        ImportDeclaration specs source \<Rightarrow>
          if imports_useState specs source then s\<lparr>imported := True\<rparr> else s
      | _ \<Rightarrow> s)"

definition is_useState :: "node \<Rightarrow> bool" where
  "is_useState callee \<longleftrightarrow> node_type callee = ''Identifier'' \<and> node_name callee = Some ''useState''"

text \<open>
  The \<open>VariableDeclarator\<close> visitor: \<open>const [state, setter] = useState(...)\<close> binds
  the setter.  A setter without a name would be stored under the key \<open>undefined\<close>, which
  no lookup uses; the model stores nothing then.
\<close>

definition VariableDeclarator_log :: "logging \<Rightarrow> node \<Rightarrow> logging" where
  "VariableDeclarator_log s n =
     (if \<not> imported s then s
      else
        (case n of
           VariableDeclarator i (Some init) \<Rightarrow>
             (case call_parts init of
                Some (loc, callee, args) \<Rightarrow>
                  if is_useState callee \<and> node_type i = ''ArrayPattern'' then
                    (case elements i of
                       Some state # Some setter # _ \<Rightarrow>
                         (case node_name setter of
                            Some k \<Rightarrow> s\<lparr>stateSetters := (stateSetters s)(k \<mapsto> printed_name state)\<rparr>
                          | None \<Rightarrow> s)
                     | _ \<Rightarrow> s)
                  else s
              | None \<Rightarrow> s)
         | _ \<Rightarrow> s))"

text \<open>The state bound to the setter that a call calls, if it calls one.\<close>

definition called_setter :: "logging \<Rightarrow> node \<Rightarrow> string option" where
  "called_setter s n =
     (case call_parts n of
        Some (loc, callee, args) \<Rightarrow>
          if node_type callee = ''Identifier'' then
            (case node_name callee of Some f \<Rightarrow> stateSetters s f | None \<Rightarrow> None)
          else None
      | None \<Rightarrow> None)"

definition log_statement :: "string \<Rightarrow> string \<Rightarrow> node \<Rightarrow> node" where
  "log_statement component stateName value =
     ExpressionStatement
       (CallExpression None console_log
          [StringLiteral (''['' @ component @ ''] '' @ stateName @ '' updated to:''), value])"

text \<open>
  What the model covers.  The visitor inserts the log statement with \<open>path.insertBefore\<close>.
  When the call is a statement of the body of a program or of a block, the new statement
  goes in front of that statement.  Elsewhere the library rewrites the expression or the
  statement around the call and visits the result again; that is code of the library, and
  the model stops there (\<open>Beyond\<close>).  The log statement shares the first argument of the
  call with the call, and the traversal visits the inserted statement later; the model
  covers the calls whose first argument holds no node that a visitor acts on
  (\<open>quiet\<close>), and stops at the others.  A setter called without arguments makes the
  builder of the call expression throw.
\<close>

datatype halt = Throws exn | Beyond

definition acted_on :: "node \<Rightarrow> bool" where
  "acted_on n \<longleftrightarrow>
     node_type n = ''ImportDeclaration'' \<or> node_type n = ''VariableDeclarator'' \<or>
     (case call_parts n of
        Some (loc, callee, args) \<Rightarrow> node_type callee = ''Identifier''
      | None \<Rightarrow> False)"

definition quiet :: "node \<Rightarrow> bool" where
  "quiet a \<longleftrightarrow> \<not> list_ex acted_on (nodes a)"

fun statement_list :: "node \<Rightarrow> node list option" where
  "statement_list (Program b) = Some b"
| "statement_list (BlockStatement b) = Some b"
| "statement_list _ = None"

fun statement_call :: "node \<Rightarrow> node option" where
  "statement_call (ExpressionStatement e) = Some e"
| "statement_call _ = None"

text \<open>A visit of each node of a list that may put more than one node in its place.\<close>

fun thread_many ::
    "('s \<Rightarrow> node \<Rightarrow> 'e + 's \<times> node list) \<Rightarrow> 's \<Rightarrow> node list \<Rightarrow> 'e + 's \<times> node list" where
  "thread_many f s [] = Inr (s, [])"
| "thread_many f s (k # ks) =
     (case f s k of
        Inl e \<Rightarrow> Inl e
      | Inr (s1, out) \<Rightarrow>
          (case thread_many f s1 ks of
             Inl e \<Rightarrow> Inl e
           | Inr (s2, outs) \<Rightarrow> Inr (s2, out @ outs)))"

lemma thread_many_cong [fundef_cong]:
  "s = t \<Longrightarrow> xs = ys \<Longrightarrow> (\<And>s x. x \<in> set ys \<Longrightarrow> f s x = g s x) \<Longrightarrow>
     thread_many f s xs = thread_many g t ys"
  by (induction ys arbitrary: s t xs) (auto split: sum.splits)

lemma statement_list_Some: "statement_list n = Some b \<Longrightarrow> n = Program b \<or> n = BlockStatement b"
  by (cases n) auto

lemma statement_call_Some: "statement_call x = Some e \<longleftrightarrow> x = ExpressionStatement e"
  by (cases x) auto

lemma size_statement_call:
  "statement_list n = Some b \<Longrightarrow> x \<in> set b \<Longrightarrow> statement_call x = Some e \<Longrightarrow>
     call_parts e = Some (loc, callee, a # rest) \<Longrightarrow> k \<in> set rest \<Longrightarrow> size k < size n"
proof -
  assume b: "statement_list n = Some b" and x: "x \<in> set b" and e: "statement_call x = Some e"
    and c: "call_parts e = Some (loc, callee, a # rest)" and k: "k \<in> set rest"
  have "size k < size e"
    using c k in_list_size [of k rest] by (auto simp: call_parts_Some)
  moreover have "size e < size x" using e by (auto simp: statement_call_Some)
  moreover have "size x < size n"
    using statement_list_Some [OF b] x in_list_size [of x b] by auto
  ultimately show ?thesis by simp
qed

lemma size_statement_in_list: "statement_list n = Some b \<Longrightarrow> x \<in> set b \<Longrightarrow> size x < size n"
  using statement_list_Some [of n b] in_list_size [of x b] by auto

text \<open>
  The traversal with the three visitors.  In a list of statements, a statement that is a
  call of a bound setter gets the log statement in front of it; then the traversal goes into
  the call (the callee and the first argument have nothing to visit).
\<close>

function traverse_setters :: "logging \<Rightarrow> node list \<Rightarrow> node \<Rightarrow> halt + logging \<times> node" where
  "traverse_setters s anc n =
     (if node_type n = ''ImportDeclaration'' then
        descend (\<lambda>t k. traverse_setters t (n # anc) k) (ImportDeclaration_log s n) n
      else if node_type n = ''VariableDeclarator'' then
        descend (\<lambda>t k. traverse_setters t (n # anc) k) (VariableDeclarator_log s n) n
      else
        (case statement_list n of
           Some stmts \<Rightarrow>
             (case
                thread_many
                  (\<lambda>t x.
                     case statement_call x of
                       Some e \<Rightarrow>
                         (case called_setter t e of
                            Some stateName \<Rightarrow>
                              (case call_parts e of
                                 Some (loc, callee, a # rest) \<Rightarrow>
                                   if \<not> quiet a then Inl Beyond
                                   else
                                     (case thread (\<lambda>u k. traverse_setters u (e # x # n # anc) k)
                                             (t\<lparr>modified := True\<rparr>) rest of
                                        Inl h \<Rightarrow> Inl h
                                      | Inr (t', rest') \<Rightarrow>
                                          Inr (t',
                                            [log_statement (findComponentName e (x # n # anc))
                                               stateName a,
                                             ExpressionStatement
                                               (CallExpression loc callee (a # rest'))]))
                               | _ \<Rightarrow> Inl (Throws TypeError))
                          | None \<Rightarrow>
                              (case traverse_setters t (n # anc) x of
                                 Inl h \<Rightarrow> Inl h
                               | Inr (t', x') \<Rightarrow> Inr (t', [x'])))
                     | None \<Rightarrow>
                         (case traverse_setters t (n # anc) x of
                            Inl h \<Rightarrow> Inl h
                          | Inr (t', x') \<Rightarrow> Inr (t', [x'])))
                  s stmts
              of
                Inl h \<Rightarrow> Inl h
              | Inr (s', stmts') \<Rightarrow> Inr (s', rebuild n stmts'))
         | None \<Rightarrow>
             (case called_setter s n of
                Some stateName \<Rightarrow>
                  (case call_parts n of
                     Some (loc, callee, a # rest) \<Rightarrow> Inl Beyond
                   | _ \<Rightarrow> Inl (Throws TypeError))
              | None \<Rightarrow> descend (\<lambda>t k. traverse_setters t (n # anc) k) s n)))"
  by pat_completeness auto
termination
  by (relation "measure (\<lambda>(s, anc, n). size n)")
    (auto simp add: size_child size_statement_call size_statement_in_list
      simp del: children.simps node.size)

declare traverse_setters.simps [simp del]

text \<open>
  \<open>processFile\<close> of the logger.  It reads the file outside its \<open>try\<close> (\<open>ENOENT\<close>
  ends the run); errors of the parser and of the traversal are caught and printed.  The file
  is written only when the traversal has set \<open>modified\<close>.  A traversal that the model
  does not cover has no result in the model (\<open>None\<close>).
\<close>

definition processFile_log ::
    "(string \<Rightarrow> node option) \<Rightarrow> (node \<Rightarrow> string) \<Rightarrow> string \<Rightarrow> machine \<Rightarrow>
       (exn + machine) option" where
  "processFile_log parse generate fp r =
     (case disk r fp of
        None \<Rightarrow> Some (Inl ENOENT)
      | Some content \<Rightarrow>
          if \<not> str_includes content ''useState'' then Some (Inr r)
          else
            (case parse content of
               None \<Rightarrow> Some (Inr (say (''Error processing '' @ fp @ '':'') r))
             | Some ast \<Rightarrow>
                 (case traverse_setters
                         \<lparr>imported = False, modified = False, stateSetters = Map.empty\<rparr> [] ast of
                    Inl Beyond \<Rightarrow> None
                  | Inl (Throws e) \<Rightarrow> Some (Inr (say (''Error processing '' @ fp @ '':'') r))
                  | Inr (s, ast') \<Rightarrow>
                      if modified s then
                        Some (Inr ((say (''Modified: '' @ fp) r)
                          \<lparr>disk := (disk r)(fp \<mapsto> generate ast'), written := written r @ [fp]\<rparr>))
                      else Some (Inr r))))"

section \<open>The function logger\<close>

text \<open>
  The \<open>Function\<close> visitor of the interactive function logger.  The registry of the
  script: the parent of each function found by the scan, the file of each function, and the
  two results of the logging pass.
\<close>

record registry =
  functionHierarchy :: "string \<rightharpoonup> string"
  functionLocations :: "string \<rightharpoonup> string"
  anyModified :: bool
  modifiedFunctions :: nat

fun id_of :: "node \<Rightarrow> node option" where
  "id_of (FunctionDeclaration i _ _) = i"
| "id_of (FunctionExpression i _ _) = i"
| "id_of (VariableDeclarator i _) = Some i"
| "id_of _ = None"

text \<open>\<open>x && x.name\<close>, as a condition: a name that is there and not empty.\<close>

definition truthy_name :: "node option \<Rightarrow> string option" where
  "truthy_name i =
     (case i of
        None \<Rightarrow> None
      | Some j \<Rightarrow> (case node_name j of Some x \<Rightarrow> if x = [] then None else Some x | None \<Rightarrow> None))"

fun property_key :: "node \<Rightarrow> node option" where
  "property_key (ObjectProperty k _) = Some k"
| "property_key _ = None"

definition getFunctionName :: "node \<Rightarrow> node list \<Rightarrow> string option" where
  "getFunctionName n anc =
     (case truthy_name (id_of n) of
        Some x \<Rightarrow> Some x
      | None \<Rightarrow>
          (case anc of
             [] \<Rightarrow> None
           | parent # _ \<Rightarrow>
               if node_type parent = ''VariableDeclarator'' \<and>
                  (case id_of parent of Some i \<Rightarrow> node_type i = ''Identifier'' | None \<Rightarrow> False)
               then (case id_of parent of Some i \<Rightarrow> node_name i | None \<Rightarrow> None)
               else if node_type parent = ''ObjectProperty'' \<and>
                  (case property_key parent of Some k \<Rightarrow> node_type k = ''Identifier'' | None \<Rightarrow> False)
               then (case property_key parent of Some k \<Rightarrow> node_name k | None \<Rightarrow> None)
               else None))"

text \<open>
  \<open>name[0] === name[0].toUpperCase()\<close>, for a name in ASCII: the first character is not
  a small letter.
\<close>

definition starts_upper :: "string \<Rightarrow> bool" where
  "starts_upper x \<longleftrightarrow>
     (case x of [] \<Rightarrow> False | c # _ \<Rightarrow> \<not> (97 \<le> (of_char c :: nat) \<and> (of_char c :: nat) \<le> 122))"

fun declarator_init :: "node \<Rightarrow> node option" where
  "declarator_init (VariableDeclarator _ init) = init"
| "declarator_init _ = None"

definition declares_component :: "node \<Rightarrow> bool" where
  "declares_component n \<longleftrightarrow>
     node_type n = ''FunctionDeclaration'' \<or>
     (node_type n = ''VariableDeclarator'' \<and>
      (case declarator_init n of
         Some init \<Rightarrow> node_type init = ''ArrowFunctionExpression''
       | None \<Rightarrow> False))"

fun findParentComponent :: "node \<Rightarrow> node list \<Rightarrow> string option" where
  "findParentComponent n anc =
     (case (if declares_component n then
              (case getFunctionName n anc of
                 Some x \<Rightarrow> if starts_upper x then Some x else None
               | None \<Rightarrow> None)
            else None) of
        Some x \<Rightarrow> Some x
      | None \<Rightarrow> (case anc of [] \<Rightarrow> None | p # ps \<Rightarrow> findParentComponent p ps))"

text \<open>\<open>path.findParent\<close>: the nearest ancestor that satisfies the test, as a path.\<close>

fun findParent :: "(node \<Rightarrow> bool) \<Rightarrow> node list \<Rightarrow> (node \<times> node list) option" where
  "findParent P [] = None"
| "findParent P (p # ps) = (if P p then Some (p, ps) else findParent P ps)"

definition called_statement :: "string \<Rightarrow> string \<Rightarrow> node" where
  "called_statement parentName functionName =
     ExpressionStatement
       (CallExpression None console_log
          [StringLiteral (''['' @ parentName @ ''] Called: '' @ functionName)])"

fun function_body :: "node \<Rightarrow> node option" where
  "function_body (FunctionDeclaration _ _ b) = Some b"
| "function_body (FunctionExpression _ _ b) = Some b"
| "function_body (ArrowFunctionExpression _ b) = Some b"
| "function_body _ = None"

fun set_body :: "node \<Rightarrow> node \<Rightarrow> node" where
  "set_body (FunctionDeclaration i ps _) b = FunctionDeclaration i ps b"
| "set_body (FunctionExpression i ps _) b = FunctionExpression i ps b"
| "set_body (ArrowFunctionExpression ps _) b = ArrowFunctionExpression ps b"
| "set_body n b = n"

text \<open>
  The function with the log statement in its body: unshifted into a block, or in a new
  block with the return of the expression that was the body.
\<close>

definition log_function :: "node \<Rightarrow> node \<Rightarrow> node" where
  "log_function stmt n =
     (case function_body n of
        None \<Rightarrow> n
      | Some originalBody \<Rightarrow>
          (case block_statements originalBody of
             Some stmts \<Rightarrow> set_body n (BlockStatement (stmt # stmts))
           | None \<Rightarrow> set_body n (BlockStatement [stmt, ReturnStatement (Some originalBody)])))"

text \<open>
  The visitor on the path \<open>(n, anc)\<close> of a function node, in the scan (\<open>scanOnly\<close>) and
  in the logging pass.  \<open>a || b || 'global'\<close> takes the first name that is there and not
  empty.
\<close>

definition first_name :: "string option \<Rightarrow> string option \<Rightarrow> string" where
  "first_name a b =
     (case a of
        Some x \<Rightarrow> if x \<noteq> [] then x else (case b of Some y \<Rightarrow> if y \<noteq> [] then y else ''global'' | None \<Rightarrow> ''global'')
      | None \<Rightarrow> (case b of Some y \<Rightarrow> if y \<noteq> [] then y else ''global'' | None \<Rightarrow> ''global''))"

definition Function_visitor ::
    "string \<Rightarrow> bool \<Rightarrow> string list \<Rightarrow> registry \<Rightarrow> node \<Rightarrow> node list \<Rightarrow> registry \<times> node" where
  "Function_visitor fp scanOnly functionsToLog st n anc =
     (case getFunctionName n anc of
        None \<Rightarrow> (st, n)
      | Some functionName \<Rightarrow>
          (let componentName = findParentComponent n anc in
           if scanOnly then
             (let st1 = st\<lparr>functionLocations := (functionLocations st)(functionName \<mapsto> fp)\<rparr> in
              case componentName of
                Some c \<Rightarrow> (st1\<lparr>functionHierarchy := (functionHierarchy st1)(functionName \<mapsto> c)\<rparr>, n)
              | None \<Rightarrow>
                  (case findParent is_function anc of
                     None \<Rightarrow> (st1, n)
                   | Some (p, ps) \<Rightarrow>
                       (case getFunctionName p ps of
                          None \<Rightarrow> (st1, n)
                        | Some parentName \<Rightarrow>
                            (st1\<lparr>functionHierarchy :=
                                   (functionHierarchy st1)(functionName \<mapsto> parentName)\<rparr>, n))))
           else if functionName \<in> set functionsToLog then
             (if componentName = Some functionName then (st, n)
              else
                (let parentName = first_name componentName (functionHierarchy st functionName) in
                 (st\<lparr>anyModified := True, modifiedFunctions := modifiedFunctions st + 1\<rparr>,
                  log_function (called_statement parentName functionName) n)))
           else (st, n)))"

section \<open>The profiler wrapper\<close>

definition map_children :: "(node \<Rightarrow> node) \<Rightarrow> node \<Rightarrow> node" where
  "map_children f n = rebuild n (map f (children n))"

lemma map_children_cong [fundef_cong]:
  "n = m \<Longrightarrow> (\<And>k. k \<in> set (children m) \<Longrightarrow> f k = g k) \<Longrightarrow> map_children f n = map_children g m"
  by (simp add: map_children_def cong: map_cong)

text \<open>\<open>arg.openingElement.name.name\<close> of a JSX element.\<close>

definition jsx_tag :: "node \<Rightarrow> string option" where
  "jsx_tag arg =
     (case arg of
        JSXElement ope _ _ \<Rightarrow>
          (case ope of JSXOpeningElement nm _ _ \<Rightarrow> node_name nm | _ \<Rightarrow> None)
      | _ \<Rightarrow> None)"

definition profiler_element :: "string \<Rightarrow> node \<Rightarrow> node" where
  "profiler_element cname arg =
     JSXElement
       (JSXOpeningElement (JSXIdentifier ''Profiler'')
          [JSXAttribute (JSXIdentifier ''id'') (Some (StringLiteral cname)),
           JSXAttribute (JSXIdentifier ''onRender'')
             (Some (JSXExpressionContainer (Identifier ''onRenderCallback'')))]
          False)
       (Some (JSXClosingElement (JSXIdentifier ''Profiler'')))
       [arg]"

fun return_argument :: "node \<Rightarrow> node option" where
  "return_argument (ReturnStatement a) = a"
| "return_argument _ = None"

text \<open>
  The argument that the \<open>ReturnStatement\<close> visitor wraps: a JSX element or fragment that
  is not a \<open>Profiler\<close> element.
\<close>

definition to_wrap :: "node \<Rightarrow> node option" where
  "to_wrap n =
     (if node_type n = ''ReturnStatement'' then
        (case return_argument n of
           None \<Rightarrow> None
         | Some arg \<Rightarrow>
             if node_type arg \<noteq> ''JSXElement'' \<and> node_type arg \<noteq> ''JSXFragment'' then None
             else if node_type arg = ''JSXElement'' \<and> jsx_tag arg = Some ''Profiler'' then None
             else Some arg)
      else None)"

definition ReturnStatement_wrap :: "string \<Rightarrow> node \<Rightarrow> node" where
  "ReturnStatement_wrap cname n =
     (case to_wrap n of
        None \<Rightarrow> n
      | Some arg \<Rightarrow> ReturnStatement (Some (profiler_element cname arg)))"

lemma size_to_wrap: "to_wrap n = Some arg \<Longrightarrow> size arg < size n"
  by (cases n) (auto simp: to_wrap_def split: option.splits if_splits)

text \<open>
  The traversal under the function, with the visitor in it: after the visitor has wrapped the
  argument of a return statement, the traversal goes on into the new element, whose only
  child with anything to visit is the old argument.
\<close>

function wrap_returns :: "string \<Rightarrow> node \<Rightarrow> node" where
  "wrap_returns cname n =
     (case to_wrap n of
        Some arg \<Rightarrow>
          ReturnStatement (Some (profiler_element cname (wrap_returns cname arg)))
      | None \<Rightarrow> map_children (wrap_returns cname) n)"
  by pat_completeness auto
termination
  by (relation "measure (\<lambda>(c, n). size n)") (auto simp: size_to_wrap size_child)

declare wrap_returns.simps [simp del]

text \<open>
  \<open>wrapReturnWithProfiler\<close> on the path of the function: the name is
  \<open>path.node.id?.name || path.parent?.id?.name || 'UnknownComponent'\<close>, and the
  traversal visits what is under the node.
\<close>

definition profiled_name :: "node \<Rightarrow> node list \<Rightarrow> string" where
  "profiled_name n anc =
     (case truthy_name (id_of n) of
        Some x \<Rightarrow> x
      | None \<Rightarrow>
          (case anc of
             [] \<Rightarrow> ''UnknownComponent''
           | parent # _ \<Rightarrow>
               (case truthy_name (id_of parent) of
                  Some x \<Rightarrow> x
                | None \<Rightarrow> ''UnknownComponent'')))"

definition wrapReturnWithProfiler :: "node \<Rightarrow> node list \<Rightarrow> node" where
  "wrapReturnWithProfiler n anc = map_children (wrap_returns (profiled_name n anc)) n"

section \<open>The classes of the specification\<close>

text \<open>
  The specification lists seven shapes of an initial value, tested in this order, the first
  match winning.  \<open>first_match\<close> is that search, written from the specification;
  \<open>label\<close> is the label that the analyzer reports for a shape.
\<close>

datatype shape =
  FunctionLiteral | Ternary | Logical | Call | NonEmptyObject | NonEmptyArray | Binary

fun has_shape :: "shape \<Rightarrow> node \<Rightarrow> bool" where
  "has_shape FunctionLiteral n \<longleftrightarrow>
     node_type n = ''ArrowFunctionExpression'' \<or> node_type n = ''FunctionExpression''"
| "has_shape Ternary n \<longleftrightarrow> node_type n = ''ConditionalExpression''"
| "has_shape Logical n \<longleftrightarrow> node_type n = ''LogicalExpression''"
| "has_shape Call n \<longleftrightarrow> node_type n = ''CallExpression''"
| "has_shape NonEmptyObject n \<longleftrightarrow> node_type n = ''ObjectExpression'' \<and> properties n \<noteq> []"
| "has_shape NonEmptyArray n \<longleftrightarrow> node_type n = ''ArrayExpression'' \<and> elements n \<noteq> []"
| "has_shape Binary n \<longleftrightarrow> node_type n = ''BinaryExpression''"

definition precedence :: "shape list" where
  "precedence = [FunctionLiteral, Ternary, Logical, Call, NonEmptyObject, NonEmptyArray, Binary]"

definition first_match :: "node \<Rightarrow> shape option" where
  "first_match n = find (\<lambda>sh. has_shape sh n) precedence"

fun label :: "shape \<Rightarrow> string" where
  "label FunctionLiteral = ''Function initialization''"
| "label Ternary = ''Ternary operator''"
| "label Logical = ''Logical expression''"
| "label Call = ''Function call''"
| "label NonEmptyObject = ''Complex object''"
| "label NonEmptyArray = ''Non-empty array''"
| "label Binary = ''Binary expression''"

text \<open>The initial values that the specification calls trivial, and the two empty literals.\<close>

definition trivial_or_empty :: "node \<Rightarrow> bool" where
  "trivial_or_empty iv \<longleftrightarrow>
     (case iv of
        BooleanLiteral _ \<Rightarrow> True
      | StringLiteral v \<Rightarrow> v = []
      | NumericLiteral v \<Rightarrow> v = 0
      | NullLiteral \<Rightarrow> True
      | Identifier x \<Rightarrow> x = ''undefined''
      | ObjectExpression ps \<Rightarrow> ps = []
      | ArrayExpression es \<Rightarrow> es = []
      | _ \<Rightarrow> False)"

text \<open>An import declaration that imports \<open>useState\<close> from \<open>react\<close>.\<close>

definition importing :: "node \<Rightarrow> bool" where
  "importing n \<longleftrightarrow>
     (case n of ImportDeclaration specs source \<Rightarrow> imports_useState specs source | _ \<Rightarrow> False)"

definition imports_useState_in :: "node \<Rightarrow> bool" where
  "imports_useState_in ast \<longleftrightarrow> list_ex importing (nodes ast)"

text \<open>
  The findings that a path is due: one, for a call \<open>useState(iv, ...)\<close> whose initial
  value has one of the seven shapes, with the label of the first shape that matches; none
  for any other path.
\<close>

definition site_finding ::
    "string \<Rightarrow> offsets \<Rightarrow> string \<Rightarrow> node \<times> node list \<times> nat list \<Rightarrow> finding list" where
  "site_finding content offsets fp p =
     (case p of (n, anc, addr) \<Rightarrow>
        (case call_parts n of
           Some (loc, callee, iv # rest) \<Rightarrow>
             if node_name callee = Some ''useState'' then
               (case first_match iv of
                  Some sh \<Rightarrow>
                    [\<lparr>componentName = findComponentName n anc,
                      variableName = variable_name anc,
                      filePath = fp,
                      lineNumber = loc,
                      reason = label sh,
                      initialization =
                        trim (slice content (fst (offsets (addr @ [1])))
                                (snd (offsets (addr @ [1]))))\<rparr>]
                | None \<Rightarrow> [])
             else []
         | _ \<Rightarrow> []))"

text \<open>
  The paths from the first import of \<open>useState\<close> on, in the order of the traversal.
\<close>

definition after_import :: "node \<Rightarrow> (node \<times> node list \<times> nat list) list" where
  "after_import ast = dropWhile (\<lambda>p. \<not> importing (fst p)) (subpaths [] [] ast)"

text \<open>
  Two files for the examples.  In the first the import comes first; in the second the
  component comes first.  Each has the one call \<open>useState(() => x())\<close>, on line 1; the
  table of offsets lists those of its initial value, the only ones that are read.
\<close>

definition app_call :: node where
  "app_call =
     CallExpression (Some 1) (Identifier ''useState'')
       [ArrowFunctionExpression [] (CallExpression (Some 1) (Identifier ''x'') [])]"

definition app_component :: node where
  "app_component =
     FunctionDeclaration (Some (Identifier ''App'')) []
       (BlockStatement
          [VariableDeclaration ''const''
             [VariableDeclarator
                (ArrayPattern [Some (Identifier ''a''), Some (Identifier ''setA'')])
                (Some app_call)]])"

definition react_import :: node where
  "react_import =
     ImportDeclaration [ImportSpecifier (Identifier ''useState'') (Identifier ''useState'')]
       ''react''"

definition app_source :: string where
  "app_source =
     ''import { useState } from 'react'; function App() { const [a, setA] = useState(() => x()); }''"

definition late_source :: string where
  "late_source =
     ''function App() { const [a, setA] = useState(() => x()); } import { useState } from 'react';''"

definition parse_app :: "string \<Rightarrow> (node \<times> offsets) option" where
  "parse_app content =
     (if content = app_source then
        Some (Program [react_import, app_component],
              \<lambda>addr. if addr = [1, 1, 0, 0, 1, 1] then (78, 87) else (0, 0))
      else if content = late_source then
        Some (Program [app_component, react_import],
              \<lambda>addr. if addr = [0, 1, 0, 0, 1, 1] then (44, 53) else (0, 0))
      else None)"

section \<open>Properties of the analyzer\<close>

lemma first_match_shape: "has_shape sh iv \<Longrightarrow> first_match iv = Some sh"
  by (cases sh) (auto simp: first_match_def precedence_def)

lemma check_initial_value_first_match:
  "check_initial_value iv =
     (case first_match iv of
        Some sh \<Rightarrow> Complex_value (label sh)
      | None \<Rightarrow> if check_initial_value iv = Basic then Basic else Plain)"
  by (simp add: check_initial_value_def first_match_def precedence_def)

lemma check_initial_value_trivial:
  "trivial_or_empty iv \<Longrightarrow> check_initial_value iv = Basic \<or> check_initial_value iv = Plain"
  by (cases iv) (simp_all add: trivial_or_empty_def check_initial_value_def)

lemma visit_analyze_imported:
  assumes "useStateImported s"
  shows "visit_analyze content offsets fp s p =
           s\<lparr>findings := findings s @ site_finding content offsets fp p\<rparr>"
proof -
  obtain n anc addr where p: "p = (n, anc, addr)" by (cases p)
  show ?thesis
  proof (cases n)
    case (CallExpression loc callee args)
    show ?thesis
    proof (cases args)
      case Nil
      then show ?thesis
        using assms p CallExpression
        by (simp add: visit_analyze_def CallExpression_analyze_def site_finding_def)
    next
      case (Cons iv rest)
      show ?thesis
      proof (cases "first_match iv")
        case None
        then have "check_initial_value iv = Basic \<or> check_initial_value iv = Plain"
          using check_initial_value_first_match [of iv] by (simp split: if_splits)
        then show ?thesis
          using assms p CallExpression Cons None
          by (auto simp: visit_analyze_def CallExpression_analyze_def site_finding_def)
      next
        case (Some sh)
        then have "check_initial_value iv = Complex_value (label sh)"
          using check_initial_value_first_match [of iv] by simp
        then show ?thesis
          using assms p CallExpression Cons Some
          by (simp add: visit_analyze_def CallExpression_analyze_def site_finding_def)
      qed
    qed
  next
    case (ImportDeclaration specs source)
    then show ?thesis
      using assms p
      by (cases s) (simp add: visit_analyze_def ImportDeclaration_analyze_def site_finding_def)
  qed (use assms p in \<open>simp_all add: visit_analyze_def CallExpression_analyze_def
      ImportDeclaration_analyze_def site_finding_def\<close>)
qed

lemma traverse_imported:
  "useStateImported s \<Longrightarrow>
     findings (foldl (visit_analyze content offsets fp) s ps) =
       findings s @ concat (map (site_finding content offsets fp) ps)"
proof (induction ps arbitrary: s)
  case Nil
  show ?case by simp
next
  case (Cons p ps)
  let ?s = "s\<lparr>findings := findings s @ site_finding content offsets fp p\<rparr>"
  have "useStateImported ?s" using Cons.prems by simp
  from Cons.IH [OF this] show ?case
    by (simp add: visit_analyze_imported [OF Cons.prems])
qed

lemma visit_analyze_not_imported:
  "\<not> useStateImported s \<Longrightarrow> \<not> importing n \<Longrightarrow>
     visit_analyze content offsets fp s (n, anc, addr) = s"
  by (cases n)
    (simp_all add: visit_analyze_def ImportDeclaration_analyze_def CallExpression_analyze_def
      importing_def)

lemma visit_analyze_import:
  "importing n \<Longrightarrow>
     visit_analyze content offsets fp s (n, anc, addr) = s\<lparr>useStateImported := True\<rparr> \<and>
     site_finding content offsets fp (n, anc, addr) = []"
  by (cases n)
    (simp_all add: visit_analyze_def ImportDeclaration_analyze_def importing_def site_finding_def)

lemma traverse_not_imported:
  "\<not> useStateImported s \<Longrightarrow>
     findings (foldl (visit_analyze content offsets fp) s ps) =
       findings s @
       concat (map (site_finding content offsets fp) (dropWhile (\<lambda>p. \<not> importing (fst p)) ps))"
proof (induction ps arbitrary: s)
  case Nil
  show ?case by simp
next
  case (Cons p ps)
  obtain n anc addr where p: "p = (n, anc, addr)" by (cases p)
  show ?case
  proof (cases "importing n")
    case True
    then show ?thesis
      using traverse_imported [of "s\<lparr>useStateImported := True\<rparr>" content offsets fp ps]
      by (simp add: p visit_analyze_import)
  next
    case False
    then show ?thesis
      using Cons.IH [OF Cons.prems] Cons.prems by (simp add: p visit_analyze_not_imported)
  qed
qed

text \<open>
  Shapes exclude each other: an initial value that has a shape has no other, so the first
  match in the order of the specification is the only match.
\<close>

lemma shapes_exclusive: "has_shape sh iv \<Longrightarrow> has_shape sh' iv \<Longrightarrow> sh = sh'"
  by (cases sh; cases sh') auto

fun paths_from ::
    "nat list \<Rightarrow> node list \<Rightarrow> nat \<Rightarrow> node list \<Rightarrow> (node \<times> node list \<times> nat list) list" where
  "paths_from addr anc i [] = []"
| "paths_from addr anc i (k # ks) = subpaths (addr @ [i]) anc k @ paths_from addr anc (Suc i) ks"

lemma paths_from_enumerate:
  "concat (map (\<lambda>ik. subpaths (addr @ [fst ik]) anc (snd ik)) (enumerate i ks)) =
     paths_from addr anc i ks"
  by (induction ks arbitrary: i) simp_all

lemma subpaths_unfold:
  "subpaths addr anc n = (n, anc, addr) # paths_from addr (n # anc) 0 (children n)"
  by (subst subpaths.simps) (simp add: paths_from_enumerate)

lemmas analyzer_eval =
  subpaths_unfold app_component_def app_call_def react_import_def importing_def imports_useState_def
  site_finding_def first_match_def precedence_def is_function_def printed_name_def
  variable_name_def slice_def trim_def is_space_def

lemma parse_app_source:
  "parse_app app_source =
     Some (Program [react_import, app_component],
           \<lambda>addr. if addr = [1, 1, 0, 0, 1, 1] then (78, 87) else (0, 0))"
  by (simp add: parse_app_def)

lemma parse_late_source:
  "parse_app late_source =
     Some (Program [app_component, react_import],
           \<lambda>addr. if addr = [0, 1, 0, 0, 1, 1] then (44, 53) else (0, 0))"
  by (simp add: parse_app_def app_source_def late_source_def)

lemma mentions_useState:
  "str_includes app_source ''useState''" "str_includes late_source ''useState''"
  by (simp_all add: app_source_def late_source_def)

lemma findings_app_source:
  "concat (map (site_finding app_source
       (\<lambda>addr. if addr = [1, 1, 0, 0, 1, 1] then (78, 87) else (0, 0)) ''App.jsx'')
     (after_import (Program [react_import, app_component]))) =
   [\<lparr>componentName = ''App'', variableName = ''a'', filePath = ''App.jsx'',
     lineNumber = Some 1, reason = ''Function initialization'',
     initialization = ''() => x()''\<rparr>]"
  by (simp add: after_import_def analyzer_eval app_source_def)

text \<open>
  C1, as amended.  For a file that mentions \<open>useState\<close> and parses, the findings of
  \<open>analyzeFile\<close> are, in the order of the traversal, exactly one finding for every call of
  \<open>useState\<close> that the traversal visits after the first import of \<open>useState\<close> from
  \<open>react\<close> and whose initial value has one of the seven shapes, and nothing else.  The
  finding carries the label of the first shape, in the order of the specification, that the
  initial value matches, and the trimmed text of the initial value in the content.  Calls
  that the traversal visits before that import, or in a file without it, give no finding.
\<close>

theorem C1_one_finding_per_complex_initializer_after_import:
  assumes "str_includes content ''useState''" and "parse content = Some (ast, offsets)"
  shows "analyzeFile parse content fp =
           (Some (concat (map (site_finding content offsets fp) (after_import ast))), [])"
  using assms traverse_not_imported
    [of "\<lparr>useStateImported = False, findings = []\<rparr>" content offsets fp "subpaths [] [] ast"]
  by (simp add: analyzeFile_def traverse_analyze_def after_import_def)

text \<open>The witness: the file with the import first has the one finding.\<close>

theorem C1_witness:
  "analyzeFile parse_app app_source ''App.jsx'' =
     (Some [\<lparr>componentName = ''App'', variableName = ''a'', filePath = ''App.jsx'',
             lineNumber = Some 1, reason = ''Function initialization'',
             initialization = ''() => x()''\<rparr>], [])"
  using C1_one_finding_per_complex_initializer_after_import
    [where parse = parse_app and content = app_source and fp = "''App.jsx''"
       and ast = "Program [react_import, app_component]"
       and offsets = "\<lambda>addr. if addr = [1, 1, 0, 0, 1, 1] then (78, 87) else (0, 0)"]
  by (simp only: mentions_useState parse_app_source findings_app_source simp_thms)

text \<open>
  The counterexample to the claim as it was stated: the file imports \<open>useState\<close> from
  \<open>react\<close>, after the component; the initial value of the one call of \<open>useState\<close> is
  an arrow function; and the analyzer has no finding for the file.
\<close>

theorem C1_counterexample:
  "analyzeFile parse_app late_source ''App.jsx'' = (Some [], []) \<and>
   map_option fst (parse_app late_source) = Some (Program [app_component, react_import]) \<and>
   imports_useState_in (Program [app_component, react_import]) \<and>
   check_initial_value (ArrowFunctionExpression [] (CallExpression (Some 1) (Identifier ''x'') [])) =
     Complex_value ''Function initialization''"
proof -
  have "analyzeFile parse_app late_source ''App.jsx'' = (Some [], [])"
    by (simp add: analyzeFile_def mentions_useState parse_late_source traverse_analyze_def
        analyzer_eval visit_analyze_def ImportDeclaration_analyze_def CallExpression_analyze_def)
  moreover have "imports_useState_in (Program [app_component, react_import])"
    by (simp add: imports_useState_in_def subpaths_nodes [of "[]" "[]", symmetric] analyzer_eval)
  ultimately show ?thesis
    by (simp add: parse_late_source check_initial_value_def)
qed

text \<open>
  C3.  At a call whose initial value is a boolean literal, the empty string, zero,
  \<open>null\<close>, \<open>undefined\<close>, \<open>{}\<close> or \<open>[]\<close>, the visitor leaves the state, and so
  the findings, as they are, whatever the callee and the state.
\<close>

theorem C3_no_finding_for_trivial_initializer:
  assumes "trivial_or_empty iv"
  shows "CallExpression_analyze content offsets fp s (CallExpression loc callee (iv # rest)) anc addr = s"
  using check_initial_value_trivial [OF assms]
  by (auto simp: CallExpression_analyze_def)

theorem C3_witness:
  "CallExpression_analyze ''useState({})'' (\<lambda>_. (9, 11)) ''App.jsx''
     \<lparr>useStateImported = True, findings = []\<rparr>
     (CallExpression (Some 2) (Identifier ''useState'') [ObjectExpression []]) [] [] =
   \<lparr>useStateImported = True, findings = []\<rparr>"
  using C3_no_finding_for_trivial_initializer [of "ObjectExpression []" "''useState({})''"
      "\<lambda>_. (9, 11)" "''App.jsx''" "\<lparr>useStateImported = True, findings = []\<rparr>" "Some 2"
      "Identifier ''useState''" "[]" "[]" "[]"]
  by (simp add: trivial_or_empty_def)

lemma foldl_fixed: "(\<And>p. p \<in> set ps \<Longrightarrow> f s p = s) \<Longrightarrow> foldl f s ps = s"
  by (induction ps) auto

lemma traverse_analyze_not_imported:
  "\<not> imports_useState_in ast \<Longrightarrow>
     traverse_analyze content offsets fp ast = \<lparr>useStateImported = False, findings = []\<rparr>"
  unfolding traverse_analyze_def imports_useState_in_def
proof (rule foldl_fixed)
  fix p
  assume a: "\<not> list_ex importing (nodes ast)" and p: "p \<in> set (subpaths [] [] ast)"
  obtain n anc addr where [simp]: "p = (n, anc, addr)" by (cases p)
  have "set (nodes ast) = fst ` set (subpaths [] [] ast)"
    by (simp add: subpaths_nodes [of "[]" "[]" ast, symmetric])
  then have "n \<in> set (nodes ast)"
    using p by force
  then have "\<not> importing n" using a by (auto simp: list_ex_iff)
  then show "visit_analyze content offsets fp \<lparr>useStateImported = False, findings = []\<rparr> p =
      \<lparr>useStateImported = False, findings = []\<rparr>"
    by (simp add: visit_analyze_not_imported)
qed

section \<open>Properties of the \<open>useEffect\<close> debugger\<close>

subsection \<open>Decimal numbers are unambiguous\<close>







subsection \<open>What a traversal does to the state\<close>














text \<open>The files of the counterexamples and witnesses, with their trees.\<close>

definition effect_a :: string where
  "effect_a = ''useEffect(() => { load(); });''"

definition effect_a_ast :: node where
  "effect_a_ast =
     Program
       [ExpressionStatement
          (CallExpression (Some 1) (Identifier ''useEffect'')
             [ArrowFunctionExpression []
                (BlockStatement
                   [ExpressionStatement (CallExpression (Some 1) (Identifier ''load'') [])])])]"

definition effect_b :: string where
  "effect_b = ''useEffect(() => subscribe()); useEffect(tick);''"

definition effect_b_ast :: node where
  "effect_b_ast =
     Program
       [ExpressionStatement
          (CallExpression (Some 1) (Identifier ''useEffect'')
             [ArrowFunctionExpression [] (CallExpression (Some 1) (Identifier ''subscribe'') [])]),
        ExpressionStatement
          (CallExpression (Some 1) (Identifier ''useEffect'') [Identifier ''tick''])]"

definition parse_effects :: "string \<Rightarrow> node option" where
  "parse_effects code =
     (if code = effect_a then Some effect_a_ast
      else if code = effect_b then Some effect_b_ast
      else None)"

text \<open>A stand-in for the code generator: it prints the names that the program declares first.\<close>

fun declared_name :: "node \<Rightarrow> string" where
  "declared_name (VariableDeclaration _ [VariableDeclarator (Identifier x) _]) = x"
| "declared_name _ = []"

fun print_declared :: "node \<Rightarrow> string" where
  "print_declared (Program b) = concat (map (\<lambda>d. declared_name d @ '';'') (takeWhile (\<lambda>d. declared_name d \<noteq> []) b))"
| "print_declared _ = []"







subsection \<open>The counter names of a file\<close>




subsection \<open>Trees without a call of \<open>useEffect\<close>\<close>

lemma thread_id: "(\<And>t k. k \<in> set xs \<Longrightarrow> f t k = Inr (t, k)) \<Longrightarrow> thread f s xs = Inr (s, xs)"
  by (induction xs arbitrary: s) auto

lemma descend_id:
  "(\<And>t k. k \<in> set (children n) \<Longrightarrow> f t k = Inr (t, k)) \<Longrightarrow> descend f s n = Inr (s, n)"
  by (simp add: descend_def thread_id rebuild_children)

lemma nodes_self: "n \<in> set (nodes n)"
  by (subst nodes.simps) simp

lemma nodes_child: "k \<in> set (children n) \<Longrightarrow> set (nodes k) \<subseteq> set (nodes n)"
  by (subst (2) nodes.simps) auto

lemma traverse_effects_id:
  "\<not> list_ex effect_call (nodes n) \<Longrightarrow> traverse_effects fp s anc n = Inr (s, n)"
proof (induction n arbitrary: s anc rule: measure_induct_rule [where f = size])
  case (less n)
  have "\<not> effect_call n" using less.prems nodes_self [of n] by (auto simp: list_ex_iff)
  moreover have "\<And>t k. k \<in> set (children n) \<Longrightarrow> traverse_effects fp t (n # anc) k = Inr (t, k)"
  proof -
    fix t k
    assume k: "k \<in> set (children n)"
    then have "\<not> list_ex effect_call (nodes k)"
      using less.prems nodes_child [OF k] by (auto simp: list_ex_iff)
    then show "traverse_effects fp t (n # anc) k = Inr (t, k)"
      using less.IH k by (simp add: size_child)
  qed
  ultimately show ?case by (simp add: te_other descend_id)
qed

subsection \<open>The effects found and the effects mutated\<close>


















section \<open>Writes, errors and imports\<close>

subsection \<open>A file is written only after a mutation\<close>









subsection \<open>A file that does not parse\<close>

text \<open>What a run of the debugger leaves behind, apart from what it printed.\<close>

definition outcome :: "run \<Rightarrow> (string \<rightharpoonup> string) \<times> string list \<times> nat \<times> nat" where
  "outcome r = (disk r, written r, moduleCounter r, globalEffectCounter r)"

lemma processFile_outcome:
  "outcome r = outcome r' \<Longrightarrow>
     outcome (processFile parse generate fp r) = outcome (processFile parse generate fp r')"
  by (auto simp: outcome_def processFile_def say_def Let_def
      split: option.splits sum.splits prod.splits)

lemma processFiles_outcome:
  "outcome r = outcome r' \<Longrightarrow>
     outcome (processFiles parse generate fps r) = outcome (processFiles parse generate fps r')"
  unfolding processFiles_def
proof (induction fps arbitrary: r r')
  case Nil
  then show ?case by simp
next
  case (Cons fp fps)
  have "outcome (processFile parse generate fp r) = outcome (processFile parse generate fp r')"
    using Cons.prems by (rule processFile_outcome)
  then show ?case
    unfolding foldl_Cons by (rule Cons.IH)
qed

lemma processFile_disk_other: "p \<noteq> fp \<Longrightarrow> disk (processFile parse generate fp r) p = disk r p"
  by (auto simp: processFile_def say_def Let_def split: option.splits sum.splits prod.splits)

lemma processFiles_disk_other:
  "p \<notin> set fps \<Longrightarrow> disk (processFiles parse generate fps r) p = disk r p"
  unfolding processFiles_def
  by (induction fps arbitrary: r) (auto simp: processFile_disk_other)

lemma processFile_unparsable:
  "disk r p = Some code \<Longrightarrow> parse code = None \<Longrightarrow>
     processFile parse generate p r =
       say (if str_includes code ''useEffect'' then ''Error processing '' @ p @ '':''
            else ''No useEffect found in file'')
         (say (''Processing file: '' @ p) r)"
  by (simp add: processFile_def say_def Let_def transformCode_def)

lemma processFile_console: "set (console r) \<subseteq> set (console (processFile parse generate fp r))"
  by (auto simp: processFile_def say_def Let_def split: option.splits sum.splits prod.splits)

lemma processFiles_console: "set (console r) \<subseteq> set (console (processFiles parse generate fps r))"
  unfolding processFiles_def
proof (induction fps arbitrary: r)
  case Nil
  show ?case by simp
next
  case (Cons fp fps)
  show ?case
    using Cons [of "processFile parse generate fp r"] processFile_console [of r parse generate fp]
    by auto
qed

lemma processFiles_append:
  "processFiles parse generate (xs @ ys) r =
     processFiles parse generate ys (processFiles parse generate xs r)"
  by (simp add: processFiles_def)

lemma processFiles_Cons:
  "processFiles parse generate (p # ys) r =
     processFiles parse generate ys (processFile parse generate p r)"
  by (simp add: processFiles_def)

text \<open>The findings of the analyzer, or the error that ended its run.\<close>

definition found :: "exn + finding list \<times> string list \<Rightarrow> exn + finding list" where
  "found res = (case res of Inl e \<Rightarrow> Inl e | Inr (fs, errors) \<Rightarrow> Inr fs)"

definition analyze_step ::
    "(string \<Rightarrow> (node \<times> offsets) option) \<Rightarrow> (string \<rightharpoonup> string) \<Rightarrow>
       exn + finding list \<times> string list \<Rightarrow> string \<Rightarrow> exn + finding list \<times> string list" where
  "analyze_step parse files acc fp =
     (case acc of
        Inl e \<Rightarrow> Inl e
      | Inr (allFindings, errors) \<Rightarrow>
          (case files fp of
             None \<Rightarrow> Inl ENOENT
           | Some content \<Rightarrow>
               (case analyzeFile parse content fp of
                  (None, out) \<Rightarrow> Inr (allFindings, errors @ out)
                | (Some fs, out) \<Rightarrow> Inr (allFindings @ fs, errors @ out))))"

lemma analyzeFiles_fold:
  "analyzeFiles parse files fps = foldl (analyze_step parse files) (Inr ([], [])) fps"
  unfolding analyzeFiles_def analyze_step_def ..

lemma analyze_step_found:
  "found a = found b \<Longrightarrow> found (analyze_step parse files a fp) = found (analyze_step parse files b fp)"
  by (auto simp: found_def analyze_step_def split: sum.splits option.splits prod.splits)

lemma analyze_fold_found:
  "found a = found b \<Longrightarrow>
     found (foldl (analyze_step parse files) a fps) = found (foldl (analyze_step parse files) b fps)"
proof (induction fps arbitrary: a b)
  case Nil
  then show ?case by simp
next
  case (Cons fp fps)
  have "found (analyze_step parse files a fp) = found (analyze_step parse files b fp)"
    using Cons.prems by (rule analyze_step_found)
  then show ?case
    unfolding foldl_Cons by (rule Cons.IH)
qed

lemma analyzeFile_unparsable:
  "parse content = None \<Longrightarrow>
     analyzeFile parse content fp =
       (if str_includes content ''useState'' then (Some [], [''Error processing '' @ fp @ '':''])
        else (None, []))"
  by (simp add: analyzeFile_def)

lemma analyze_step_unparsable:
  "files p = Some content \<Longrightarrow> parse content = None \<Longrightarrow>
     found (analyze_step parse files a p) = found a"
  by (auto simp: found_def analyze_step_def analyzeFile_unparsable split: sum.splits)

text \<open>
  C8.  Let a file of the batch not parse.  In the \<open>useEffect\<close> debugger, the run over the
  batch leaves the disk, the writes and the two counters as the run over the batch without
  that file does, and, if the file mentions \<open>useEffect\<close>, so that the parser is called, the
  run prints the error with the path of the file.  In the analyzer, the run over the batch
  gives the findings of the run over the batch without that file; for the file itself
  \<open>analyzeFile\<close> returns no findings and, if the file mentions \<open>useState\<close>, prints the
  error with the path.
\<close>

theorem C8_unparsable_file_is_isolated:
  assumes "parse code = None" and "p \<notin> set xs" and "disk r p = Some code"
      and "parse_o content = None" and "files p = Some content"
  shows "outcome (processFiles parse generate (xs @ p # ys) r) =
           outcome (processFiles parse generate (xs @ ys) r) \<and>
         (str_includes code ''useEffect'' \<longrightarrow>
            ''Error processing '' @ p @ '':'' \<in>
              set (console (processFiles parse generate (xs @ p # ys) r))) \<and>
         found (analyzeFiles parse_o files (xs @ p # ys)) =
           found (analyzeFiles parse_o files (xs @ ys)) \<and>
         analyzeFile parse_o content p =
           (if str_includes content ''useState''
            then (Some [], [''Error processing '' @ p @ '':'']) else (None, []))"
proof -
  let ?r1 = "processFiles parse generate xs r"
  have d: "disk ?r1 p = Some code"
    using assms(2,3) by (simp add: processFiles_disk_other)
  have p: "processFile parse generate p ?r1 =
      say (if str_includes code ''useEffect'' then ''Error processing '' @ p @ '':''
           else ''No useEffect found in file'')
        (say (''Processing file: '' @ p) ?r1)"
    using d assms(1) by (rule processFile_unparsable)
  have "outcome (processFile parse generate p ?r1) = outcome ?r1"
    unfolding p by (simp add: outcome_def say_def)
  then have 1: "outcome (processFiles parse generate (xs @ p # ys) r) =
      outcome (processFiles parse generate (xs @ ys) r)"
    unfolding processFiles_append processFiles_Cons by (rule processFiles_outcome)
  have 2: "''Error processing '' @ p @ '':'' \<in>
      set (console (processFiles parse generate (xs @ p # ys) r))"
    if "str_includes code ''useEffect''"
  proof -
    have "''Error processing '' @ p @ '':'' \<in> set (console (processFile parse generate p ?r1))"
      unfolding p using that by (simp add: say_def)
    then show ?thesis
      unfolding processFiles_append processFiles_Cons
      using processFiles_console [of "processFile parse generate p ?r1" parse generate ys] by blast
  qed
  let ?a = "foldl (analyze_step parse_o files) (Inr ([], [])) xs"
  have "found (analyze_step parse_o files ?a p) = found ?a"
    using assms(5,4) by (rule analyze_step_unparsable)
  then have 3: "found (analyzeFiles parse_o files (xs @ p # ys)) =
      found (analyzeFiles parse_o files (xs @ ys))"
    unfolding analyzeFiles_fold foldl_append foldl_Cons by (rule analyze_fold_found)
  show ?thesis
    using 1 2 3 analyzeFile_unparsable [of parse_o content p, OF assms(4)] by simp
qed

text \<open>
  The witness: the file \<open>bad.js\<close> between \<open>a.js\<close> and \<open>b.js\<close> does not parse.
\<close>

definition bad_source :: string where
  "bad_source = ''useEffect(useState(''"

definition three_files :: run where
  "three_files =
     \<lparr>disk = [''a.js'' \<mapsto> effect_a, ''bad.js'' \<mapsto> bad_source, ''b.js'' \<mapsto> effect_b],
      console = [], written = [], moduleCounter = 0, globalEffectCounter = 0\<rparr>"

theorem C8_witness:
  "outcome (processFiles parse_effects print_declared ([''a.js''] @ ''bad.js'' # [''b.js'']) three_files) =
     outcome (processFiles parse_effects print_declared ([''a.js''] @ [''b.js'']) three_files) \<and>
   ''Error processing bad.js:'' \<in>
     set (console (processFiles parse_effects print_declared ([''a.js''] @ ''bad.js'' # [''b.js''])
       three_files)) \<and>
   found (analyzeFiles parse_app (disk three_files) ([''a.js''] @ ''bad.js'' # [''b.js''])) =
     found (analyzeFiles parse_app (disk three_files) ([''a.js''] @ [''b.js''])) \<and>
   analyzeFile parse_app bad_source ''bad.js'' = (Some [], [''Error processing bad.js:''])"
proof -
  have h: "parse_effects bad_source = None" "''bad.js'' \<notin> set [''a.js'']"
    "disk three_files ''bad.js'' = Some bad_source" "parse_app bad_source = None"
    "disk three_files ''bad.js'' = Some bad_source"
    by (simp_all add: parse_effects_def effect_a_def effect_b_def three_files_def parse_app_def
        app_source_def late_source_def bad_source_def)
  have i: "str_includes bad_source ''useEffect''" "str_includes bad_source ''useState''"
    by (simp_all add: bad_source_def)
  show ?thesis
    using C8_unparsable_file_is_isolated
      [where parse = parse_effects and code = bad_source and p = "''bad.js''"
         and xs = "[''a.js'']" and r = three_files and parse_o = parse_app
         and content = bad_source and generate = print_declared and ys = "[''b.js'']"
         and files = "disk three_files", OF h] i
    by simp
qed

subsection \<open>Calls of a hook that is not imported\<close>














end
